theory Spec2Isabelle
  imports Main "HOL-Library.Sublist"
begin

section \<open>XShaderCompiler: keyword tables, type denoters, if-block records\<close>

text \<open>
  A shallow embedding of three files of the compiler front end:
  \<^verbatim>\<open>src/Compiler/Frontend/HLSL/HLSLKeywords.cpp\<close> (the keyword lookup tables),
  \<^verbatim>\<open>src/Compiler/AST/TypeDenoter.cpp\<close> (the type denoter hierarchy) and
  \<^verbatim>\<open>src/Compiler/PreProcessor.h\<close> (the if-block record of the pre-processor).
  A C++ exception is a value: every function that can throw returns \<open>error + 'a\<close>,
  with \<open>Inl\<close> carrying the exception.
\<close>

subsection \<open>Errors\<close>

text \<open>
  \<^verbatim>\<open>std::runtime_error\<close> with the \<^verbatim>\<open>std::string\<close> it was constructed from. Its message,
  \<^verbatim>\<open>what()\<close>, is a NUL-terminated \<^verbatim>\<open>const char*\<close>: the characters of that string before
  its first NUL byte.
\<close>

datatype error = runtime_error string

fun what :: "error \<Rightarrow> string" where
  "what (runtime_error msg) = takeWhile (\<lambda>c. c \<noteq> CHR 0x00) msg"

subsection \<open>Enumerations\<close>

text \<open>
  Modelled from the spec: the enumeration \<^verbatim>\<open>DataType\<close> is declared in ASTEnums.h, which is
  not among the sources. The spec gives it as the scalar bases Bool, Int, UInt, Half, Float,
  Double, each alone, with one dimension in 2..4, or with two dimensions in 2..4, plus
  String. The enumerators that HLSLKeywords.cpp names (\<^verbatim>\<open>T::Float4x4\<close> and so on) are
  abbreviations of the structured values below, one for one (\<^verbatim>\<open>T::Int\<close> is \<open>Int'\<close>: \<open>Int\<close> is the intersection of sets).
\<close>

datatype ScalarBase = BaseBool | BaseInt | BaseUInt | BaseHalf | BaseFloat | BaseDouble

datatype Dim = D2 | D3 | D4

datatype DataType =
    String
  | Scalar ScalarBase
  | Vector ScalarBase Dim
  | Matrix ScalarBase Dim Dim
abbreviation Bool :: DataType where "Bool \<equiv> Scalar BaseBool"
abbreviation Int' :: DataType where "Int' \<equiv> Scalar BaseInt"
abbreviation UInt :: DataType where "UInt \<equiv> Scalar BaseUInt"
abbreviation Half :: DataType where "Half \<equiv> Scalar BaseHalf"
abbreviation Float :: DataType where "Float \<equiv> Scalar BaseFloat"
abbreviation Double :: DataType where "Double \<equiv> Scalar BaseDouble"
abbreviation Bool2 :: DataType where "Bool2 \<equiv> Vector BaseBool D2"
abbreviation Bool3 :: DataType where "Bool3 \<equiv> Vector BaseBool D3"
abbreviation Bool4 :: DataType where "Bool4 \<equiv> Vector BaseBool D4"
abbreviation Int2 :: DataType where "Int2 \<equiv> Vector BaseInt D2"
abbreviation Int3 :: DataType where "Int3 \<equiv> Vector BaseInt D3"
abbreviation Int4 :: DataType where "Int4 \<equiv> Vector BaseInt D4"
abbreviation UInt2 :: DataType where "UInt2 \<equiv> Vector BaseUInt D2"
abbreviation UInt3 :: DataType where "UInt3 \<equiv> Vector BaseUInt D3"
abbreviation UInt4 :: DataType where "UInt4 \<equiv> Vector BaseUInt D4"
abbreviation Half2 :: DataType where "Half2 \<equiv> Vector BaseHalf D2"
abbreviation Half3 :: DataType where "Half3 \<equiv> Vector BaseHalf D3"
abbreviation Half4 :: DataType where "Half4 \<equiv> Vector BaseHalf D4"
abbreviation Float2 :: DataType where "Float2 \<equiv> Vector BaseFloat D2"
abbreviation Float3 :: DataType where "Float3 \<equiv> Vector BaseFloat D3"
abbreviation Float4 :: DataType where "Float4 \<equiv> Vector BaseFloat D4"
abbreviation Double2 :: DataType where "Double2 \<equiv> Vector BaseDouble D2"
abbreviation Double3 :: DataType where "Double3 \<equiv> Vector BaseDouble D3"
abbreviation Double4 :: DataType where "Double4 \<equiv> Vector BaseDouble D4"
abbreviation Bool2x2 :: DataType where "Bool2x2 \<equiv> Matrix BaseBool D2 D2"
abbreviation Bool2x3 :: DataType where "Bool2x3 \<equiv> Matrix BaseBool D2 D3"
abbreviation Bool2x4 :: DataType where "Bool2x4 \<equiv> Matrix BaseBool D2 D4"
abbreviation Bool3x2 :: DataType where "Bool3x2 \<equiv> Matrix BaseBool D3 D2"
abbreviation Bool3x3 :: DataType where "Bool3x3 \<equiv> Matrix BaseBool D3 D3"
abbreviation Bool3x4 :: DataType where "Bool3x4 \<equiv> Matrix BaseBool D3 D4"
abbreviation Bool4x2 :: DataType where "Bool4x2 \<equiv> Matrix BaseBool D4 D2"
abbreviation Bool4x3 :: DataType where "Bool4x3 \<equiv> Matrix BaseBool D4 D3"
abbreviation Bool4x4 :: DataType where "Bool4x4 \<equiv> Matrix BaseBool D4 D4"
abbreviation Int2x2 :: DataType where "Int2x2 \<equiv> Matrix BaseInt D2 D2"
abbreviation Int2x3 :: DataType where "Int2x3 \<equiv> Matrix BaseInt D2 D3"
abbreviation Int2x4 :: DataType where "Int2x4 \<equiv> Matrix BaseInt D2 D4"
abbreviation Int3x2 :: DataType where "Int3x2 \<equiv> Matrix BaseInt D3 D2"
abbreviation Int3x3 :: DataType where "Int3x3 \<equiv> Matrix BaseInt D3 D3"
abbreviation Int3x4 :: DataType where "Int3x4 \<equiv> Matrix BaseInt D3 D4"
abbreviation Int4x2 :: DataType where "Int4x2 \<equiv> Matrix BaseInt D4 D2"
abbreviation Int4x3 :: DataType where "Int4x3 \<equiv> Matrix BaseInt D4 D3"
abbreviation Int4x4 :: DataType where "Int4x4 \<equiv> Matrix BaseInt D4 D4"
abbreviation UInt2x2 :: DataType where "UInt2x2 \<equiv> Matrix BaseUInt D2 D2"
abbreviation UInt2x3 :: DataType where "UInt2x3 \<equiv> Matrix BaseUInt D2 D3"
abbreviation UInt2x4 :: DataType where "UInt2x4 \<equiv> Matrix BaseUInt D2 D4"
abbreviation UInt3x2 :: DataType where "UInt3x2 \<equiv> Matrix BaseUInt D3 D2"
abbreviation UInt3x3 :: DataType where "UInt3x3 \<equiv> Matrix BaseUInt D3 D3"
abbreviation UInt3x4 :: DataType where "UInt3x4 \<equiv> Matrix BaseUInt D3 D4"
abbreviation UInt4x2 :: DataType where "UInt4x2 \<equiv> Matrix BaseUInt D4 D2"
abbreviation UInt4x3 :: DataType where "UInt4x3 \<equiv> Matrix BaseUInt D4 D3"
abbreviation UInt4x4 :: DataType where "UInt4x4 \<equiv> Matrix BaseUInt D4 D4"
abbreviation Half2x2 :: DataType where "Half2x2 \<equiv> Matrix BaseHalf D2 D2"
abbreviation Half2x3 :: DataType where "Half2x3 \<equiv> Matrix BaseHalf D2 D3"
abbreviation Half2x4 :: DataType where "Half2x4 \<equiv> Matrix BaseHalf D2 D4"
abbreviation Half3x2 :: DataType where "Half3x2 \<equiv> Matrix BaseHalf D3 D2"
abbreviation Half3x3 :: DataType where "Half3x3 \<equiv> Matrix BaseHalf D3 D3"
abbreviation Half3x4 :: DataType where "Half3x4 \<equiv> Matrix BaseHalf D3 D4"
abbreviation Half4x2 :: DataType where "Half4x2 \<equiv> Matrix BaseHalf D4 D2"
abbreviation Half4x3 :: DataType where "Half4x3 \<equiv> Matrix BaseHalf D4 D3"
abbreviation Half4x4 :: DataType where "Half4x4 \<equiv> Matrix BaseHalf D4 D4"
abbreviation Float2x2 :: DataType where "Float2x2 \<equiv> Matrix BaseFloat D2 D2"
abbreviation Float2x3 :: DataType where "Float2x3 \<equiv> Matrix BaseFloat D2 D3"
abbreviation Float2x4 :: DataType where "Float2x4 \<equiv> Matrix BaseFloat D2 D4"
abbreviation Float3x2 :: DataType where "Float3x2 \<equiv> Matrix BaseFloat D3 D2"
abbreviation Float3x3 :: DataType where "Float3x3 \<equiv> Matrix BaseFloat D3 D3"
abbreviation Float3x4 :: DataType where "Float3x4 \<equiv> Matrix BaseFloat D3 D4"
abbreviation Float4x2 :: DataType where "Float4x2 \<equiv> Matrix BaseFloat D4 D2"
abbreviation Float4x3 :: DataType where "Float4x3 \<equiv> Matrix BaseFloat D4 D3"
abbreviation Float4x4 :: DataType where "Float4x4 \<equiv> Matrix BaseFloat D4 D4"
abbreviation Double2x2 :: DataType where "Double2x2 \<equiv> Matrix BaseDouble D2 D2"
abbreviation Double2x3 :: DataType where "Double2x3 \<equiv> Matrix BaseDouble D2 D3"
abbreviation Double2x4 :: DataType where "Double2x4 \<equiv> Matrix BaseDouble D2 D4"
abbreviation Double3x2 :: DataType where "Double3x2 \<equiv> Matrix BaseDouble D3 D2"
abbreviation Double3x3 :: DataType where "Double3x3 \<equiv> Matrix BaseDouble D3 D3"
abbreviation Double3x4 :: DataType where "Double3x4 \<equiv> Matrix BaseDouble D3 D4"
abbreviation Double4x2 :: DataType where "Double4x2 \<equiv> Matrix BaseDouble D4 D2"
abbreviation Double4x3 :: DataType where "Double4x3 \<equiv> Matrix BaseDouble D4 D3"
abbreviation Double4x4 :: DataType where "Double4x4 \<equiv> Matrix BaseDouble D4 D4"

text \<open>
  Modelled from the spec: the helpers \<^verbatim>\<open>IsScalarType\<close>, \<^verbatim>\<open>IsVectorType\<close>, \<^verbatim>\<open>IsMatrixType\<close>,
  \<^verbatim>\<open>VectorTypeDim\<close> and \<^verbatim>\<open>MatrixTypeDim\<close> (ASTEnums.cpp is not among the sources). The spec:
  three predicates on DataType, and two dimension functions with VectorTypeDim(T) in
  {2,3,4} and MatrixTypeDim(T) a pair (M,N). Outside the vector (matrix) types the spec
  gives the dimension functions no value; they are 0 there, and the code modelled below
  reads them on vector (matrix) types only.
\<close>

fun IsScalarType :: "DataType \<Rightarrow> bool" where
  "IsScalarType (Scalar b) = True"
| "IsScalarType t = False"

fun IsVectorType :: "DataType \<Rightarrow> bool" where
  "IsVectorType (Vector b n) = True"
| "IsVectorType t = False"

fun IsMatrixType :: "DataType \<Rightarrow> bool" where
  "IsMatrixType (Matrix b m n) = True"
| "IsMatrixType t = False"

fun dim_value :: "Dim \<Rightarrow> nat" where
  "dim_value D2 = 2"
| "dim_value D3 = 3"
| "dim_value D4 = 4"

fun VectorTypeDim :: "DataType \<Rightarrow> nat" where
  "VectorTypeDim (Vector b n) = dim_value n"
| "VectorTypeDim t = 0"

fun MatrixTypeDim :: "DataType \<Rightarrow> nat \<times> nat" where
  "MatrixTypeDim (Matrix b m n) = (dim_value m, dim_value n)"
| "MatrixTypeDim t = (0, 0)"

text \<open>
  \<^verbatim>\<open>StorageClass\<close> and \<^verbatim>\<open>BufferType\<close> (declared in ASTEnums.h): the enumerators are the ones
  the tables of HLSLKeywords.cpp name, spelled as the source spells them.
\<close>

datatype StorageClass =
    Extern | Precise | Shared | GroupShared | Static | Uniform | Volatile
  | NoInterpolation | Linear | Centroid | NoPerspective | Sample

datatype BufferType =
    Buffer | StucturedBuffer | ByteAddressBuffer
  | RWBuffer | RWStucturedBuffer | RWByteAddressBuffer
  | AppendStructuredBuffer | ConsumeStructuredBuffer
  | RWTexture1D | RWTexture1DArray | RWTexture2D | RWTexture2DArray | RWTexture3D
  | Texture1D | Texture1DArray | Texture2D | Texture2DArray | Texture3D
  | TextureCube | TextureCubeArray | Texture2DMS | Texture2DMSArray

subsection \<open>HLSLKeywords.cpp: the lookup tables\<close>

text \<open>
  \<^verbatim>\<open>MapKeywordToType\<close>: \<^verbatim>\<open>typeMap.find(keyword)\<close>, the mapped value when found, otherwise
  \<^verbatim>\<open>throw std::runtime_error("failed to map keyword '" + keyword + "' to " + typeName)\<close>.
  A \<^verbatim>\<open>std::map\<close> built from an initialiser list is the list of its entries read by
  \<open>map_of\<close>: of two entries with one key both keep the first.
\<close>

definition MapKeywordToType :: "(string \<times> 'a) list \<Rightarrow> string \<Rightarrow> string \<Rightarrow> error + 'a" where
  "MapKeywordToType typeMap keyword typeName =
     (case map_of typeMap keyword of
        Some v \<Rightarrow> Inr v
      | None \<Rightarrow> Inl (runtime_error
          (''failed to map keyword '' @ [CHR 0x27] @ keyword @ [CHR 0x27] @ '' to '' @ typeName)))"

definition GenerateDataTypeMap :: "(string \<times> DataType) list" where
  "GenerateDataTypeMap =
   [ (''string'', String),
     (''bool'', Bool), (''bool1'', Bool), (''bool1x1'', Bool),
     (''int'', Int'), (''int1'', Int'), (''int1x1'', Int'),
     (''uint'', UInt), (''uint1'', UInt), (''uint1x1'', UInt),
     (''dword'', UInt), (''dword1'', UInt), (''dword1x1'', UInt),
     (''half'', Half), (''half1'', Half), (''half1x1'', Half),
     (''float'', Float), (''float1'', Float), (''float1x1'', Float),
     (''double'', Double), (''double1'', Double), (''double1x1'', Double),
     (''bool2'', Bool2), (''bool3'', Bool3), (''bool4'', Bool4),
     (''int2'', Int2), (''int3'', Int3), (''int4'', Int4),
     (''uint2'', UInt2), (''uint3'', UInt3), (''uint4'', UInt4),
     (''dword2'', UInt2), (''dword3'', UInt3), (''dword4'', UInt4),
     (''half2'', Half2), (''half3'', Half3), (''half4'', Half4),
     (''float2'', Float2), (''float3'', Float3), (''float4'', Float4),
     (''double2'', Double2), (''double3'', Double3), (''double4'', Double4),
     (''bool2x2'', Bool2x2), (''bool2x3'', Bool2x3), (''bool2x4'', Bool2x4),
     (''bool3x2'', Bool3x2), (''bool3x3'', Bool3x3), (''bool3x4'', Bool3x4),
     (''bool4x2'', Bool4x2), (''bool4x3'', Bool4x3), (''bool4x4'', Bool4x4),
     (''int2x2'', Int2x2), (''int2x3'', Int2x3), (''int2x4'', Int2x4),
     (''int3x2'', Int3x2), (''int3x3'', Int3x3), (''int3x4'', Int3x4),
     (''int4x2'', Int4x2), (''int4x3'', Int4x3), (''int4x4'', Int4x4),
     (''uint2x2'', UInt2x2), (''uint2x3'', UInt2x3), (''uint2x4'', UInt2x4),
     (''uint3x2'', UInt3x2), (''uint3x3'', UInt3x3), (''uint3x4'', UInt3x4),
     (''uint4x2'', UInt4x2), (''uint4x3'', UInt4x3), (''uint4x4'', UInt4x4),
     (''dword2x2'', UInt2x2), (''dword2x3'', UInt2x3), (''dword2x4'', UInt2x4),
     (''dword3x2'', UInt3x2), (''dword3x3'', UInt3x3), (''dword3x4'', UInt3x4),
     (''dword4x2'', UInt4x2), (''dword4x3'', UInt4x3), (''dword4x4'', UInt4x4),
     (''half2x2'', Half2x2), (''half2x3'', Half2x3), (''half2x4'', Half2x4),
     (''half3x2'', Half3x2), (''half3x3'', Half3x3), (''half3x4'', Half3x4),
     (''half4x2'', Half4x2), (''half4x3'', Half4x3), (''half4x4'', Half4x4),
     (''float2x2'', Float2x2), (''float2x3'', Float2x3), (''float2x4'', Float2x4),
     (''float3x2'', Float3x2), (''float3x3'', Float3x3), (''float3x4'', Float3x4),
     (''float4x2'', Float4x2), (''float4x3'', Float4x3), (''float4x4'', Float4x4),
     (''double2x2'', Double2x2), (''double2x3'', Double2x3), (''double2x4'', Double2x4),
     (''double3x2'', Double3x2), (''double3x3'', Double3x3), (''double3x4'', Double3x4),
     (''double4x2'', Double4x2), (''double4x3'', Double4x3), (''double4x4'', Double4x4) ]"

definition HLSLKeywordToDataType :: "string \<Rightarrow> error + DataType" where
  "HLSLKeywordToDataType keyword = MapKeywordToType GenerateDataTypeMap keyword ''data type''"

definition GenerateStorageClassMap :: "(string \<times> StorageClass) list" where
  "GenerateStorageClassMap =
   [ (''extern'', Extern),
     (''precise'', Precise),
     (''shared'', Shared),
     (''groupshared'', GroupShared),
     (''static'', Static),
     (''uniform'', Uniform),
     (''volatile'', Volatile),
     (''nointerpolation'', NoInterpolation),
     (''linear'', Linear),
     (''centroid'', Centroid),
     (''noperspective'', NoPerspective),
     (''sample'', Sample) ]"

definition HLSLKeywordToStorageClass :: "string \<Rightarrow> error + StorageClass" where
  "HLSLKeywordToStorageClass keyword =
     MapKeywordToType GenerateStorageClassMap keyword ''storage class''"

definition GenerateBufferTypeMap :: "(string \<times> BufferType) list" where
  "GenerateBufferTypeMap =
   [ (''Buffer'', Buffer),
     (''StucturedBuffer'', StucturedBuffer),
     (''ByteAddressBuffer'', ByteAddressBuffer),
     (''RWBuffer'', RWBuffer),
     (''RWStucturedBuffer'', RWStucturedBuffer),
     (''RWByteAddressBuffer'', RWByteAddressBuffer),
     (''AppendStructuredBuffer'', AppendStructuredBuffer),
     (''ConsumeStructuredBuffer'', ConsumeStructuredBuffer),
     (''RWTexture1D'', RWTexture1D),
     (''RWTexture1DArray'', RWTexture1DArray),
     (''RWTexture2D'', RWTexture2D),
     (''RWTexture2DArray'', RWTexture2DArray),
     (''RWTexture3D'', RWTexture3D),
     (''Texture1D'', Texture1D),
     (''Texture1DArray'', Texture1DArray),
     (''Texture2D'', Texture2D),
     (''Texture2DArray'', Texture2DArray),
     (''Texture3D'', Texture3D),
     (''TextureCube'', TextureCube),
     (''TextureCubeArray'', TextureCubeArray),
     (''Texture2DMS'', Texture2DMS),
     (''Texture2DMSArray'', Texture2DMSArray) ]"

definition HLSLKeywordToBufferType :: "string \<Rightarrow> error + BufferType" where
  "HLSLKeywordToBufferType keyword =
     MapKeywordToType GenerateBufferTypeMap keyword ''buffer type''"

subsection \<open>TypeDenoter.cpp: the type denoter hierarchy\<close>

text \<open>The tags \<^verbatim>\<open>TypeDenoter::Types\<close> that the overrides of \<^verbatim>\<open>Type()\<close> return.\<close>

datatype Types = Void | Base | Buffer | Sampler | Texture | Struct | Alias | Array

text \<open>
  \<^verbatim>\<open>StructDecl\<close> (AST.h, not among the sources): TypeDenoter.cpp reads its member
  \<^verbatim>\<open>name\<close> only.
\<close>

record StructDecl =
  name :: string

text \<open>
  Modelled from the spec: the dimension expressions of an array denoter (\<^verbatim>\<open>ExprPtr\<close>,
  AST.h, not among the sources), "each either a constant-evaluable expression or
  unbounded": the constant, or \<open>None\<close>. TypeDenoter.cpp reads only how many there are.
\<close>

type_synonym ExprPtr = "int option"

text \<open>
  The class hierarchy as one datatype, a constructor for each subclass with the members
  TypeDenoter.cpp reads: \<^verbatim>\<open>dataType\<close> of a base denoter, \<^verbatim>\<open>ident\<close> and \<^verbatim>\<open>structDeclRef\<close> (a
  pointer, \<open>None\<close> when null) of a struct denoter, \<^verbatim>\<open>ident\<close> of an alias denoter,
  \<^verbatim>\<open>baseTypeDenoter\<close> (a shared pointer, \<open>None\<close> when null) and \<^verbatim>\<open>arrayDims\<close> of an array
  denoter.

  Modelled from the spec: the members of the buffer, texture and sampler denoters
  (TypeDenoter.h is not among the sources). The spec: they "carry classification enums";
  here a number, which no function of TypeDenoter.cpp reads.
\<close>

datatype TypeDenoter =
    VoidTypeDenoter
  | BaseTypeDenoter DataType
  | BufferTypeDenoter nat
  | TextureTypeDenoter nat
  | SamplerTypeDenoter nat
  | StructTypeDenoter string "StructDecl option"
  | AliasTypeDenoter string
  | ArrayTypeDenoter "TypeDenoter option" "ExprPtr list"

text \<open>
  The constructor \<^verbatim>\<open>StructTypeDenoter(StructDecl* structDeclRef)\<close>:
  \<^verbatim>\<open>ident{ structDeclRef ? structDeclRef->name : "" }\<close>.
\<close>

definition StructTypeDenoter_of_decl :: "StructDecl option \<Rightarrow> TypeDenoter" where
  "StructTypeDenoter_of_decl structDeclRef =
     StructTypeDenoter (case structDeclRef of Some d \<Rightarrow> name d | None \<Rightarrow> [])
       structDeclRef"

fun Type :: "TypeDenoter \<Rightarrow> Types" where
  "Type VoidTypeDenoter = Void"
| "Type (BaseTypeDenoter dataType) = Base"
| "Type (BufferTypeDenoter c) = Buffer"
| "Type (TextureTypeDenoter c) = Texture"
| "Type (SamplerTypeDenoter c) = Sampler"
| "Type (StructTypeDenoter ident structDeclRef) = Struct"
| "Type (AliasTypeDenoter ident) = Alias"
| "Type (ArrayTypeDenoter baseTypeDenoter arrayDims) = Array"

text \<open>
  \<^verbatim>\<open>IsScalar\<close>, \<^verbatim>\<open>IsVector\<close>, \<^verbatim>\<open>IsMatrix\<close>: \<^verbatim>\<open>false\<close> in the base class, overridden by
  \<^verbatim>\<open>BaseTypeDenoter\<close> alone.
\<close>

fun IsScalar :: "TypeDenoter \<Rightarrow> bool" where
  "IsScalar (BaseTypeDenoter dataType) = IsScalarType dataType"
| "IsScalar t = False"

fun IsVector :: "TypeDenoter \<Rightarrow> bool" where
  "IsVector (BaseTypeDenoter dataType) = IsVectorType dataType"
| "IsVector t = False"

fun IsMatrix :: "TypeDenoter \<Rightarrow> bool" where
  "IsMatrix (BaseTypeDenoter dataType) = IsMatrixType dataType"
| "IsMatrix t = False"

definition IsVoid :: "TypeDenoter \<Rightarrow> bool" where
  "IsVoid t = (Type t = Void)"

definition IsBase :: "TypeDenoter \<Rightarrow> bool" where
  "IsBase t = (Type t = Base)"

definition IsBuffer :: "TypeDenoter \<Rightarrow> bool" where
  "IsBuffer t = (Type t = Buffer)"

definition IsSampler :: "TypeDenoter \<Rightarrow> bool" where
  "IsSampler t = (Type t = Sampler)"

definition IsTexture :: "TypeDenoter \<Rightarrow> bool" where
  "IsTexture t = (Type t = Texture)"

definition IsStruct :: "TypeDenoter \<Rightarrow> bool" where
  "IsStruct t = (Type t = Struct)"

definition IsAlias :: "TypeDenoter \<Rightarrow> bool" where
  "IsAlias t = (Type t = Alias)"

definition IsArray :: "TypeDenoter \<Rightarrow> bool" where
  "IsArray t = (Type t = Array)"

text \<open>
  \<^verbatim>\<open>Equals\<close>: \<^verbatim>\<open>TypeDenoter::Equals\<close> compares the tags; \<^verbatim>\<open>BaseTypeDenoter::Equals\<close>, the
  only override, is
  \<^verbatim>\<open>rhs.Type() == Types::Base && dataType == static_cast<const BaseTypeDenoter&>(rhs).dataType\<close>.
\<close>

fun Equals :: "TypeDenoter \<Rightarrow> TypeDenoter \<Rightarrow> bool" where
  "Equals (BaseTypeDenoter dataType) rhs =
     (case rhs of
        BaseTypeDenoter rhsDataType \<Rightarrow> dataType = rhsDataType
      | _ \<Rightarrow> False)"
| "Equals t rhs = (Type t = Type rhs)"

text \<open>
  \<^verbatim>\<open>IsCastableTo\<close>: \<^verbatim>\<open>TypeDenoter::IsCastableTo\<close> compares the tags,
  \<^verbatim>\<open>VoidTypeDenoter::IsCastableTo\<close> returns \<^verbatim>\<open>false\<close>, and \<^verbatim>\<open>BaseTypeDenoter::IsCastableTo\<close> is
  the chain of \<^verbatim>\<open>if\<close>s below, each inner \<^verbatim>\<open>if\<close> falling through to the final
  \<^verbatim>\<open>return false\<close>. The source casts \<^verbatim>\<open>targetType\<close> to a base denoter under
  \<^verbatim>\<open>targetType.IsVector()\<close> (\<^verbatim>\<open>IsMatrix()\<close>), which only a base denoter answers with true:
  the other branch of the \<open>case\<close> is never taken.
\<close>

fun IsCastableTo :: "TypeDenoter \<Rightarrow> TypeDenoter \<Rightarrow> bool" where
  "IsCastableTo VoidTypeDenoter targetType = False"
| "IsCastableTo (BaseTypeDenoter dataType) targetType =
     (if IsScalar (BaseTypeDenoter dataType) then
        (Type targetType = Base \<or> Type targetType = Struct)
      else if IsVector (BaseTypeDenoter dataType) then
        (if IsVector targetType then
           (case targetType of
              BaseTypeDenoter targetDataType \<Rightarrow>
                (IsVector targetType \<and> VectorTypeDim dataType = VectorTypeDim targetDataType)
            | _ \<Rightarrow> False)
         else False)
      else if IsMatrix (BaseTypeDenoter dataType) then
        (if IsMatrix targetType then
           (case targetType of
              BaseTypeDenoter targetDataType \<Rightarrow>
                (IsVector targetType \<and> MatrixTypeDim dataType = MatrixTypeDim targetDataType)
            | _ \<Rightarrow> False)
         else False)
      else False)"
| "IsCastableTo t targetType = (Type t = Type targetType)"

fun Ident :: "TypeDenoter \<Rightarrow> string" where
  "Ident (StructTypeDenoter ident structDeclRef) = ident"
| "Ident (AliasTypeDenoter ident) = ident"
| "Ident t = []"

text \<open>
  The loop of \<^verbatim>\<open>ArrayTypeDenoter::ToString\<close>:
  \<^verbatim>\<open>for (std::size_t i = 0; i < arrayDims.size(); ++i) typeName += "[]";\<close>
\<close>

function ToString_loop :: "nat \<Rightarrow> nat \<Rightarrow> string \<Rightarrow> string" where
  "ToString_loop i n typeName =
     (if i < n then ToString_loop (Suc i) n (typeName @ ''[]'') else typeName)"
  by pat_completeness auto
termination
  by (relation "measure (\<lambda>(i, n, typeName). n - i)") auto

text \<open>
  \<^verbatim>\<open>ToString\<close>. Only \<^verbatim>\<open>ArrayTypeDenoter::ToString\<close> has a \<^verbatim>\<open>throw\<close>; it calls
  \<^verbatim>\<open>baseTypeDenoter->ToString()\<close>, so an exception of the inner call leaves the outer one
  too.
\<close>

fun ToString :: "TypeDenoter \<Rightarrow> error + string" where
  "ToString VoidTypeDenoter = Inr ''void''"
| "ToString (BaseTypeDenoter dataType) =
     Inr (if IsScalar (BaseTypeDenoter dataType) then ''scalar''
          else if IsVector (BaseTypeDenoter dataType) then ''vector''
          else if IsMatrix (BaseTypeDenoter dataType) then ''matrix''
          else ''<undefined>'')"
| "ToString (BufferTypeDenoter c) = Inr ''buffer''"
| "ToString (TextureTypeDenoter c) = Inr ''texture''"
| "ToString (SamplerTypeDenoter c) = Inr ''sampler''"
| "ToString (StructTypeDenoter ident structDeclRef) =
     Inr (''struct '' @ (if ident \<noteq> [] then ident else ''<anonymous>''))"
| "ToString (AliasTypeDenoter ident) = Inr ident"
| "ToString (ArrayTypeDenoter None arrayDims) =
     Inl (runtime_error ''missing base type in array type denoter'')"
| "ToString (ArrayTypeDenoter (Some baseTypeDenoter) arrayDims) =
     (case ToString baseTypeDenoter of
        Inl e \<Rightarrow> Inl e
      | Inr typeName \<Rightarrow> Inr (ToString_loop 0 (length arrayDims) typeName))"

text \<open>
  The spec's invariant on denoters: "every Array denoter's inner denoter is non-null and
  is itself a valid denoter".
\<close>

fun valid :: "TypeDenoter \<Rightarrow> bool" where
  "valid (ArrayTypeDenoter None arrayDims) = False"
| "valid (ArrayTypeDenoter (Some baseTypeDenoter) arrayDims) = valid baseTypeDenoter"
| "valid t = True"

subsection \<open>PreProcessor.h: the if-block stack\<close>










section \<open>Properties\<close>

subsection \<open>Helper lemmas\<close>

lemma vector_matrix_disjoint: "\<not> (IsVectorType d \<and> IsMatrixType d)"
  by (cases d) simp_all

lemma MapKeywordToType_miss:
  "keyword \<notin> fst ` set typeMap \<Longrightarrow>
   MapKeywordToType typeMap keyword typeName =
     Inl (runtime_error
       (''failed to map keyword '' @ [CHR 0x27] @ keyword @ [CHR 0x27] @ '' to '' @ typeName))"
proof -
  assume "keyword \<notin> fst ` set typeMap"
  then have "map_of typeMap keyword = None"
    by (simp add: map_of_eq_None_iff)
  then show ?thesis
    by (simp add: MapKeywordToType_def)
qed

lemma MapKeywordToType_hit:
  "distinct (map fst typeMap) \<Longrightarrow> (keyword, v) \<in> set typeMap \<Longrightarrow>
   MapKeywordToType typeMap keyword typeName = Inr v"
  by (simp add: MapKeywordToType_def)

lemma message_names_keyword:
  "sublist keyword (''failed to map keyword '' @ [CHR 0x27] @ keyword @ [CHR 0x27] @ '' to '' @ typeName)"
proof -
  have "sublist keyword ((''failed to map keyword '' @ [CHR 0x27]) @ keyword @ ([CHR 0x27] @ '' to '' @ typeName))"
    by (rule sublist_appendI)
  then show ?thesis by simp
qed

lemma message_names_category:
  "sublist typeName (''failed to map keyword '' @ [CHR 0x27] @ keyword @ [CHR 0x27] @ '' to '' @ typeName)"
proof -
  have "sublist typeName ((''failed to map keyword '' @ [CHR 0x27] @ keyword @ [CHR 0x27] @ '' to '') @ typeName @ [])"
    by (rule sublist_appendI)
  then show ?thesis by simp
qed

lemma what_NUL_free:
  "CHR 0x00 \<notin> set keyword \<Longrightarrow> CHR 0x00 \<notin> set typeName \<Longrightarrow>
   what (runtime_error
       (''failed to map keyword '' @ [CHR 0x27] @ keyword @ [CHR 0x27] @ '' to '' @ typeName)) =
     ''failed to map keyword '' @ [CHR 0x27] @ keyword @ [CHR 0x27] @ '' to '' @ typeName"
proof -
  assume k: "CHR 0x00 \<notin> set keyword" and t: "CHR 0x00 \<notin> set typeName"
  have "\<forall>c \<in> set (''failed to map keyword '' @ [CHR 0x27] @ keyword @ [CHR 0x27] @ '' to '' @ typeName).
          c \<noteq> CHR 0x00"
    using k t by auto
  then have "takeWhile (\<lambda>c. c \<noteq> CHR 0x00)
        (''failed to map keyword '' @ [CHR 0x27] @ keyword @ [CHR 0x27] @ '' to '' @ typeName) =
      ''failed to map keyword '' @ [CHR 0x27] @ keyword @ [CHR 0x27] @ '' to '' @ typeName"
    by (simp only: takeWhile_eq_all_conv)
  then show ?thesis by (simp only: what.simps)
qed

lemma distinct_DataTypeMap: "distinct (map fst GenerateDataTypeMap)"
  unfolding GenerateDataTypeMap_def by simp

lemma distinct_StorageClassMap: "distinct (map fst GenerateStorageClassMap)"
  unfolding GenerateStorageClassMap_def by simp

lemma distinct_BufferTypeMap: "distinct (map fst GenerateBufferTypeMap)"
  unfolding GenerateBufferTypeMap_def by simp

lemma ToString_loop_eq:
  "ToString_loop i n typeName = typeName @ concat (replicate (n - i) ''[]'')"
proof (induction i n typeName rule: ToString_loop.induct)
  case (1 i n typeName)
  show ?case
  proof (cases "i < n")
    case True
    then have "n - i = Suc (n - Suc i)" by simp
    with True 1 show ?thesis by simp
  next
    case False
    then show ?thesis by simp
  qed
qed

lemma Equals_Type: "Equals a b \<Longrightarrow> Type a = Type b"
  by (cases a; cases b) simp_all

lemma Equals_Base: "Type a = Base \<Longrightarrow> Equals a b = (a = b)"
  by (cases a; cases b) simp_all

lemma Equals_not_Base: "Type a \<noteq> Base \<Longrightarrow> Equals a b = (Type a = Type b)"
  by (cases a) simp_all

lemma Equals_refl: "Equals a a"
  by (cases a) simp_all

lemma Equals_sym: "Equals a b \<Longrightarrow> Equals b a"
proof (cases "Type a = Base")
  case True
  assume ab: "Equals a b"
  with True have "a = b" by (simp only: Equals_Base)
  then show ?thesis by (simp only: Equals_refl)
next
  case False
  assume ab: "Equals a b"
  then have eq: "Type a = Type b" by (rule Equals_Type)
  with False have "Type b \<noteq> Base" by simp
  then have "Equals b a = (Type b = Type a)" by (rule Equals_not_Base)
  with eq show ?thesis by simp
qed

lemma Equals_trans: "Equals a b \<Longrightarrow> Equals b c \<Longrightarrow> Equals a c"
proof (cases "Type a = Base")
  case True
  assume ab: "Equals a b" and bc: "Equals b c"
  from ab True have "a = b" by (simp only: Equals_Base)
  with bc show ?thesis by simp
next
  case False
  assume ab: "Equals a b" and bc: "Equals b c"
  from ab have "Type a = Type b" by (rule Equals_Type)
  moreover from bc have "Type b = Type c" by (rule Equals_Type)
  ultimately have "Type a = Type c" by (rule trans)
  moreover from False have "Equals a c = (Type a = Type c)" by (rule Equals_not_Base)
  ultimately show ?thesis by simp
qed

lemma ToString_throws_iff: "(\<exists>e. ToString t = Inl e) = (\<not> valid t)"
  by (induction t rule: ToString.induct) (auto split: sum.splits)

subsection \<open>Casts of matrix denoters\<close>

text \<open>
  Claim C1 says that a matrix base denoter is castable to exactly the matrix base denoters
  of its dimensions. The matrix branch of \<^verbatim>\<open>BaseTypeDenoter::IsCastableTo\<close> returns
  \<^verbatim>\<open>targetType.IsVector() && MatrixTypeDim(...) == MatrixTypeDim(...)\<close> under
  \<^verbatim>\<open>targetType.IsMatrix()\<close>, and no data type is both a vector and a matrix: the cast of
  \<^verbatim>\<open>Float4x4\<close> to \<^verbatim>\<open>Float4x4\<close>, a matrix to a matrix of its own dimensions, is refused.
\<close>

theorem matrix_cast_to_same_matrix_refused:
  "IsMatrix (BaseTypeDenoter Float4x4)
   \<and> Type (BaseTypeDenoter Float4x4) = Base
   \<and> MatrixTypeDim Float4x4 = (4, 4)
   \<and> IsCastableTo (BaseTypeDenoter Float4x4) (BaseTypeDenoter Float4x4) = False"
  by simp

text \<open>The same for every matrix type and every target: no matrix is castable at all.\<close>

lemma matrix_castable_to_nothing:
  "IsCastableTo (BaseTypeDenoter (Matrix b m n)) targetType = False"
proof (cases targetType)
  case (BaseTypeDenoter d)
  then show ?thesis using vector_matrix_disjoint [of d] by auto
qed simp_all

text \<open>The vector branch, which the matrix branch mirrors, does compare the dimensions.\<close>

lemma vector_castable_iff:
  "IsCastableTo (BaseTypeDenoter (Vector b n)) targetType =
     (\<exists>b' n'. targetType = BaseTypeDenoter (Vector b' n') \<and> dim_value n = dim_value n')"
proof (cases targetType)
  case (BaseTypeDenoter d)
  then show ?thesis by (cases d) auto
qed simp_all

subsection \<open>The buffer type table\<close>

text \<open>
  Claim C3 says that \<^verbatim>\<open>HLSLKeywordToBufferType\<close> maps the spellings "StructuredBuffer" and
  "RWStructuredBuffer" to their variants without an error. The table of
  \<^verbatim>\<open>GenerateBufferTypeMap\<close> has the keys "StucturedBuffer" and "RWStucturedBuffer"
  instead: both lookups of the claim throw, and the misspelled keys are the ones that
  resolve.
\<close>

theorem StructuredBuffer_lookup_throws:
  "HLSLKeywordToBufferType ''StructuredBuffer'' =
     Inl (runtime_error
       (''failed to map keyword '' @ [CHR 0x27] @ ''StructuredBuffer'' @ [CHR 0x27] @ '' to buffer type''))
   \<and> HLSLKeywordToBufferType ''RWStructuredBuffer'' =
     Inl (runtime_error
       (''failed to map keyword '' @ [CHR 0x27] @ ''RWStructuredBuffer'' @ [CHR 0x27] @ '' to buffer type''))
   \<and> HLSLKeywordToBufferType ''StucturedBuffer'' = Inr StucturedBuffer
   \<and> HLSLKeywordToBufferType ''RWStucturedBuffer'' = Inr RWStucturedBuffer
   \<and> HLSLKeywordToBufferType ''AppendStructuredBuffer'' = Inr AppendStructuredBuffer"
  by (simp add: HLSLKeywordToBufferType_def MapKeywordToType_def GenerateBufferTypeMap_def)

subsection \<open>Lookups that hit and lookups that miss\<close>

text \<open>
  Claim C6 says that for every spelling \<open>s\<close> that is not a key of the table, each of
  \<^verbatim>\<open>HLSLKeywordToDataType\<close>, \<^verbatim>\<open>HLSLKeywordToStorageClass\<close> and \<^verbatim>\<open>HLSLKeywordToBufferType\<close>
  fails with an error whose message contains \<open>s\<close> and the name of the category. The
  keyword is any \<^verbatim>\<open>std::string\<close>, and the message of the exception is a C string: for a
  spelling with a NUL byte the message ends inside the spelling and contains neither the
  spelling nor the category.
\<close>

theorem keyword_with_NUL_message_cut:
  "''a'' @ [CHR 0x00] @ ''b'' \<notin> fst ` set GenerateDataTypeMap
   \<and> HLSLKeywordToDataType (''a'' @ [CHR 0x00] @ ''b'') =
       Inl (runtime_error
         (''failed to map keyword '' @ [CHR 0x27] @ ''a'' @ [CHR 0x00] @ ''b'' @ [CHR 0x27] @ '' to data type''))
   \<and> what (runtime_error
         (''failed to map keyword '' @ [CHR 0x27] @ ''a'' @ [CHR 0x00] @ ''b'' @ [CHR 0x27] @ '' to data type'')) =
       ''failed to map keyword '' @ [CHR 0x27] @ ''a''
   \<and> \<not> sublist (''a'' @ [CHR 0x00] @ ''b'') (''failed to map keyword '' @ [CHR 0x27] @ ''a'')
   \<and> \<not> sublist ''data type'' (''failed to map keyword '' @ [CHR 0x27] @ ''a'')"
proof -
  have k: "''a'' @ [CHR 0x00] @ ''b'' \<notin> fst ` set GenerateDataTypeMap"
    by (simp add: GenerateDataTypeMap_def)
  have l: "HLSLKeywordToDataType (''a'' @ [CHR 0x00] @ ''b'') =
       Inl (runtime_error
         (''failed to map keyword '' @ [CHR 0x27] @ ''a'' @ [CHR 0x00] @ ''b'' @ [CHR 0x27] @ '' to data type''))"
    using MapKeywordToType_miss [OF k, of "''data type''"] by (simp add: HLSLKeywordToDataType_def)
  have w: "what (runtime_error
         (''failed to map keyword '' @ [CHR 0x27] @ ''a'' @ [CHR 0x00] @ ''b'' @ [CHR 0x27] @ '' to data type'')) =
       ''failed to map keyword '' @ [CHR 0x27] @ ''a''"
    by simp
  have s1: "\<not> sublist (''a'' @ [CHR 0x00] @ ''b'') (''failed to map keyword '' @ [CHR 0x27] @ ''a'')"
    by (simp add: sublist_Cons_right)
  have s2: "\<not> sublist ''data type'' (''failed to map keyword '' @ [CHR 0x27] @ ''a'')"
    by (simp add: sublist_Cons_right)
  from k l w s1 s2 show ?thesis by blast
qed

text \<open>
  Claim C6, amended: for every spelling \<open>s\<close> that is not a key of the table, each of the
  three functions throws a \<^verbatim>\<open>std::runtime_error\<close> constructed from
  "failed to map keyword '\<open>s\<close>' to \<open>category\<close>" ("data type", "storage class",
  "buffer type"); when \<open>s\<close> has no NUL byte, the message of the error is that string and
  contains \<open>s\<close> and the name of the category. For every spelling that is a key, the
  function returns the value the table gives that key, without an error.
\<close>

theorem keyword_lookup:
  "(s \<notin> fst ` set GenerateDataTypeMap \<longrightarrow>
      HLSLKeywordToDataType s = Inl (runtime_error
        (''failed to map keyword '' @ [CHR 0x27] @ s @ [CHR 0x27] @ '' to data type'')))
   \<and> (s \<notin> fst ` set GenerateDataTypeMap \<and> CHR 0x00 \<notin> set s \<longrightarrow>
      (\<exists>e. HLSLKeywordToDataType s = Inl e
         \<and> what e = ''failed to map keyword '' @ [CHR 0x27] @ s @ [CHR 0x27] @ '' to data type''
         \<and> sublist s (what e) \<and> sublist ''data type'' (what e)))
   \<and> (\<forall>v. (s, v) \<in> set GenerateDataTypeMap \<longrightarrow> HLSLKeywordToDataType s = Inr v)
   \<and> (s \<notin> fst ` set GenerateStorageClassMap \<longrightarrow>
      HLSLKeywordToStorageClass s = Inl (runtime_error
        (''failed to map keyword '' @ [CHR 0x27] @ s @ [CHR 0x27] @ '' to storage class'')))
   \<and> (s \<notin> fst ` set GenerateStorageClassMap \<and> CHR 0x00 \<notin> set s \<longrightarrow>
      (\<exists>e. HLSLKeywordToStorageClass s = Inl e
         \<and> what e = ''failed to map keyword '' @ [CHR 0x27] @ s @ [CHR 0x27] @ '' to storage class''
         \<and> sublist s (what e) \<and> sublist ''storage class'' (what e)))
   \<and> (\<forall>v. (s, v) \<in> set GenerateStorageClassMap \<longrightarrow> HLSLKeywordToStorageClass s = Inr v)
   \<and> (s \<notin> fst ` set GenerateBufferTypeMap \<longrightarrow>
      HLSLKeywordToBufferType s = Inl (runtime_error
        (''failed to map keyword '' @ [CHR 0x27] @ s @ [CHR 0x27] @ '' to buffer type'')))
   \<and> (s \<notin> fst ` set GenerateBufferTypeMap \<and> CHR 0x00 \<notin> set s \<longrightarrow>
      (\<exists>e. HLSLKeywordToBufferType s = Inl e
         \<and> what e = ''failed to map keyword '' @ [CHR 0x27] @ s @ [CHR 0x27] @ '' to buffer type''
         \<and> sublist s (what e) \<and> sublist ''buffer type'' (what e)))
   \<and> (\<forall>v. (s, v) \<in> set GenerateBufferTypeMap \<longrightarrow> HLSLKeywordToBufferType s = Inr v)"
proof -
  have miss: "\<exists>e. MapKeywordToType typeMap s typeName = Inl e
         \<and> what e = ''failed to map keyword '' @ [CHR 0x27] @ s @ [CHR 0x27] @ '' to '' @ typeName
         \<and> sublist s (what e) \<and> sublist typeName (what e)"
    if "s \<notin> fst ` set typeMap" and "CHR 0x00 \<notin> set s" and "CHR 0x00 \<notin> set typeName"
    for typeMap :: "(string \<times> 'a) list" and typeName
    using MapKeywordToType_miss [OF that(1), of typeName] what_NUL_free [OF that(2) that(3)]
      message_names_keyword [of s typeName] message_names_category [of typeName s]
    by (simp del: what.simps)
  have d0: "s \<notin> fst ` set GenerateDataTypeMap \<longrightarrow>
      HLSLKeywordToDataType s = Inl (runtime_error
        (''failed to map keyword '' @ [CHR 0x27] @ s @ [CHR 0x27] @ '' to data type''))"
    using MapKeywordToType_miss [of s GenerateDataTypeMap "''data type''"]
    by (simp add: HLSLKeywordToDataType_def)
  have d1: "s \<notin> fst ` set GenerateDataTypeMap \<and> CHR 0x00 \<notin> set s \<longrightarrow>
      (\<exists>e. HLSLKeywordToDataType s = Inl e
         \<and> what e = ''failed to map keyword '' @ [CHR 0x27] @ s @ [CHR 0x27] @ '' to data type''
         \<and> sublist s (what e) \<and> sublist ''data type'' (what e))"
    using miss [of GenerateDataTypeMap "''data type''"]
    by (simp add: HLSLKeywordToDataType_def del: what.simps)
  have d2: "\<forall>v. (s, v) \<in> set GenerateDataTypeMap \<longrightarrow> HLSLKeywordToDataType s = Inr v"
    using MapKeywordToType_hit [OF distinct_DataTypeMap] by (simp add: HLSLKeywordToDataType_def)
  have s0: "s \<notin> fst ` set GenerateStorageClassMap \<longrightarrow>
      HLSLKeywordToStorageClass s = Inl (runtime_error
        (''failed to map keyword '' @ [CHR 0x27] @ s @ [CHR 0x27] @ '' to storage class''))"
    using MapKeywordToType_miss [of s GenerateStorageClassMap "''storage class''"]
    by (simp add: HLSLKeywordToStorageClass_def)
  have s1: "s \<notin> fst ` set GenerateStorageClassMap \<and> CHR 0x00 \<notin> set s \<longrightarrow>
      (\<exists>e. HLSLKeywordToStorageClass s = Inl e
         \<and> what e = ''failed to map keyword '' @ [CHR 0x27] @ s @ [CHR 0x27] @ '' to storage class''
         \<and> sublist s (what e) \<and> sublist ''storage class'' (what e))"
    using miss [of GenerateStorageClassMap "''storage class''"]
    by (simp add: HLSLKeywordToStorageClass_def del: what.simps)
  have s2: "\<forall>v. (s, v) \<in> set GenerateStorageClassMap \<longrightarrow> HLSLKeywordToStorageClass s = Inr v"
    using MapKeywordToType_hit [OF distinct_StorageClassMap] by (simp add: HLSLKeywordToStorageClass_def)
  have b0: "s \<notin> fst ` set GenerateBufferTypeMap \<longrightarrow>
      HLSLKeywordToBufferType s = Inl (runtime_error
        (''failed to map keyword '' @ [CHR 0x27] @ s @ [CHR 0x27] @ '' to buffer type''))"
    using MapKeywordToType_miss [of s GenerateBufferTypeMap "''buffer type''"]
    by (simp add: HLSLKeywordToBufferType_def)
  have b1: "s \<notin> fst ` set GenerateBufferTypeMap \<and> CHR 0x00 \<notin> set s \<longrightarrow>
      (\<exists>e. HLSLKeywordToBufferType s = Inl e
         \<and> what e = ''failed to map keyword '' @ [CHR 0x27] @ s @ [CHR 0x27] @ '' to buffer type''
         \<and> sublist s (what e) \<and> sublist ''buffer type'' (what e))"
    using miss [of GenerateBufferTypeMap "''buffer type''"]
    by (simp add: HLSLKeywordToBufferType_def del: what.simps)
  have b2: "\<forall>v. (s, v) \<in> set GenerateBufferTypeMap \<longrightarrow> HLSLKeywordToBufferType s = Inr v"
    using MapKeywordToType_hit [OF distinct_BufferTypeMap] by (simp add: HLSLKeywordToBufferType_def)
  from d0 d1 d2 s0 s1 s2 b0 b1 b2 show ?thesis by blast
qed

theorem keyword_lookup_witness:
  "''vec3'' \<notin> fst ` set GenerateDataTypeMap
   \<and> CHR 0x00 \<notin> set ''vec3''
   \<and> HLSLKeywordToDataType ''vec3'' =
       Inl (runtime_error (''failed to map keyword '' @ [CHR 0x27] @ ''vec3'' @ [CHR 0x27] @ '' to data type''))
   \<and> what (runtime_error (''failed to map keyword '' @ [CHR 0x27] @ ''vec3'' @ [CHR 0x27] @ '' to data type'')) =
       ''failed to map keyword '' @ [CHR 0x27] @ ''vec3'' @ [CHR 0x27] @ '' to data type''
   \<and> sublist ''vec3''
       (what (runtime_error (''failed to map keyword '' @ [CHR 0x27] @ ''vec3'' @ [CHR 0x27] @ '' to data type'')))
   \<and> sublist ''data type''
       (what (runtime_error (''failed to map keyword '' @ [CHR 0x27] @ ''vec3'' @ [CHR 0x27] @ '' to data type'')))
   \<and> (''float3'', Float3) \<in> set GenerateDataTypeMap
   \<and> HLSLKeywordToDataType ''float3'' = Inr Float3
   \<and> ''vec3'' \<notin> fst ` set GenerateStorageClassMap
   \<and> HLSLKeywordToStorageClass ''vec3'' =
       Inl (runtime_error (''failed to map keyword '' @ [CHR 0x27] @ ''vec3'' @ [CHR 0x27] @ '' to storage class''))
   \<and> (''static'', Static) \<in> set GenerateStorageClassMap
   \<and> HLSLKeywordToStorageClass ''static'' = Inr Static
   \<and> ''vec3'' \<notin> fst ` set GenerateBufferTypeMap
   \<and> HLSLKeywordToBufferType ''vec3'' =
       Inl (runtime_error (''failed to map keyword '' @ [CHR 0x27] @ ''vec3'' @ [CHR 0x27] @ '' to buffer type''))
   \<and> (''Texture2D'', Texture2D) \<in> set GenerateBufferTypeMap
   \<and> HLSLKeywordToBufferType ''Texture2D'' = Inr Texture2D"
proof -
  let ?M = "''failed to map keyword '' @ [CHR 0x27] @ ''vec3'' @ [CHR 0x27] @ '' to data type''"
  have m1: "''vec3'' \<notin> fst ` set GenerateDataTypeMap"
    by (simp add: GenerateDataTypeMap_def)
  have m2: "''vec3'' \<notin> fst ` set GenerateStorageClassMap"
    by (simp add: GenerateStorageClassMap_def)
  have m3: "''vec3'' \<notin> fst ` set GenerateBufferTypeMap"
    by (simp add: GenerateBufferTypeMap_def)
  have n: "CHR 0x00 \<notin> set ''vec3''"
    by simp
  have h1: "(''float3'', Float3) \<in> set GenerateDataTypeMap"
    by (simp add: GenerateDataTypeMap_def)
  have h2: "(''static'', Static) \<in> set GenerateStorageClassMap"
    by (simp add: GenerateStorageClassMap_def)
  have h3: "(''Texture2D'', Texture2D) \<in> set GenerateBufferTypeMap"
    by (simp add: GenerateBufferTypeMap_def)
  note k = keyword_lookup [of "''vec3''"]
  from k m1 have l1: "HLSLKeywordToDataType ''vec3'' = Inl (runtime_error ?M)"
    by blast
  from k m2 have l2: "HLSLKeywordToStorageClass ''vec3'' =
       Inl (runtime_error (''failed to map keyword '' @ [CHR 0x27] @ ''vec3'' @ [CHR 0x27] @ '' to storage class''))"
    by blast
  from k m3 have l3: "HLSLKeywordToBufferType ''vec3'' =
       Inl (runtime_error (''failed to map keyword '' @ [CHR 0x27] @ ''vec3'' @ [CHR 0x27] @ '' to buffer type''))"
    by blast
  from k m1 n obtain e where e: "HLSLKeywordToDataType ''vec3'' = Inl e"
      "what e = ?M" "sublist ''vec3'' (what e)" "sublist ''data type'' (what e)"
    by blast
  from e(1) l1 have "e = runtime_error ?M"
    by (simp only: sum.inject)
  with e have w: "what (runtime_error ?M) = ?M" "sublist ''vec3'' (what (runtime_error ?M))"
      "sublist ''data type'' (what (runtime_error ?M))"
    by blast+
  from keyword_lookup [of "''float3''"] h1
  have r1: "HLSLKeywordToDataType ''float3'' = Inr Float3" by blast
  from keyword_lookup [of "''static''"] h2
  have r2: "HLSLKeywordToStorageClass ''static'' = Inr Static" by blast
  from keyword_lookup [of "''Texture2D''"] h3
  have r3: "HLSLKeywordToBufferType ''Texture2D'' = Inr Texture2D" by blast
  from m1 n l1 w h1 r1 m2 l2 h2 r2 m3 l3 h3 r3 show ?thesis by blast
qed

subsection \<open>Printing array denoters\<close>

text \<open>
  Claim C7 says that for every array denoter with a non-null inner denoter \<open>T\<close> and \<open>k\<close>
  dimensions, \<^verbatim>\<open>ToString()\<close> returns \<open>T\<close>'s \<^verbatim>\<open>ToString()\<close> followed by \<open>k\<close> copies of "[]".
  When \<open>T\<close> is itself an array denoter whose inner denoter is null, \<open>T\<close> is non-null but
  its \<^verbatim>\<open>ToString()\<close> throws, and so does the outer one: no string is returned.
\<close>

theorem ArrayTypeDenoter_ToString_of_null_array:
  "Some (ArrayTypeDenoter None [Some 2]) \<noteq> None
   \<and> ToString (ArrayTypeDenoter None [Some 2]) =
       Inl (runtime_error ''missing base type in array type denoter'')
   \<and> ToString (ArrayTypeDenoter (Some (ArrayTypeDenoter None [Some 2])) [Some 3]) =
       Inl (runtime_error ''missing base type in array type denoter'')"
  by simp

text \<open>
  Claim C7, amended: for every array denoter whose inner denoter \<open>T\<close> is non-null and
  satisfies the invariant (no array denoter on \<open>T\<close>'s chain of inner denoters has a null
  inner denoter), and whose dimension list has length \<open>k\<close>, \<open>T\<close>'s \<^verbatim>\<open>ToString()\<close> returns a
  string and the array's \<^verbatim>\<open>ToString()\<close> returns exactly that string followed by \<open>k\<close> copies
  of "[]".
\<close>

theorem ArrayTypeDenoter_ToString:
  "valid T \<Longrightarrow>
   \<exists>s. ToString T = Inr s
     \<and> ToString (ArrayTypeDenoter (Some T) arrayDims) =
         Inr (s @ concat (replicate (length arrayDims) ''[]''))"
proof -
  assume "valid T"
  then have "\<not> (\<exists>e. ToString T = Inl e)" by (simp add: ToString_throws_iff)
  then obtain s where s: "ToString T = Inr s" by (cases "ToString T") auto
  then have "ToString (ArrayTypeDenoter (Some T) arrayDims) =
      Inr (s @ concat (replicate (length arrayDims) ''[]''))"
    by (simp add: ToString_loop_eq del: ToString_loop.simps)
  with s show ?thesis by blast
qed

theorem ArrayTypeDenoter_ToString_witness:
  "valid (AliasTypeDenoter ''Color'')
   \<and> ToString (AliasTypeDenoter ''Color'') = Inr ''Color''
   \<and> ToString (ArrayTypeDenoter (Some (AliasTypeDenoter ''Color'')) [Some 3, Some 2]) =
       Inr ''Color[][]''"
  using ArrayTypeDenoter_ToString [of "AliasTypeDenoter ''Color''" "[Some 3, Some 2]"]
  by simp

text \<open>In general the outer call returns the inner string extended, or passes the inner exception on.\<close>

lemma ArrayTypeDenoter_ToString_cases:
  "ToString (ArrayTypeDenoter (Some T) arrayDims) =
     (case ToString T of
        Inl e \<Rightarrow> Inl e
      | Inr s \<Rightarrow> Inr (s @ concat (replicate (length arrayDims) ''[]'')))"
  by (simp add: ToString_loop_eq del: ToString_loop.simps split: sum.split)

subsection \<open>Throwing and totality of \<^verbatim>\<open>ToString\<close>\<close>

text \<open>
  Claim C8 says that \<^verbatim>\<open>ArrayTypeDenoter::ToString\<close> raises an error if and only if the
  inner denoter is null. An array of an array whose inner denoter is null has a non-null
  inner denoter itself, and its \<^verbatim>\<open>ToString()\<close> still ends with the exception that the
  inner call throws.
\<close>

theorem ArrayTypeDenoter_ToString_nested_throws:
  "ToString (ArrayTypeDenoter (Some (ArrayTypeDenoter None [])) []) =
     Inl (runtime_error ''missing base type in array type denoter'')
   \<and> Some (ArrayTypeDenoter None []) \<noteq> None"
  by simp

text \<open>
  Claim C8, amended: \<^verbatim>\<open>ArrayTypeDenoter::ToString\<close> raises an error if and only if the
  inner denoter is null or the inner denoter's \<^verbatim>\<open>ToString()\<close> raises; for every denoter,
  \<^verbatim>\<open>ToString()\<close> raises if and only if the invariant fails (some array denoter on the
  chain of inner denoters has a null inner denoter). Under the invariant the error branch
  is not reached and \<^verbatim>\<open>ToString()\<close> returns a string.
\<close>

theorem ToString_throws:
  "((\<exists>e. ToString (ArrayTypeDenoter baseTypeDenoter arrayDims) = Inl e) =
      (baseTypeDenoter = None
       \<or> (\<exists>T. baseTypeDenoter = Some T \<and> (\<exists>e. ToString T = Inl e))))
   \<and> ((\<exists>e. ToString t = Inl e) = (\<not> valid t))
   \<and> (valid t \<longrightarrow> (\<exists>s. ToString t = Inr s))"
proof -
  have a: "(\<exists>e. ToString (ArrayTypeDenoter baseTypeDenoter arrayDims) = Inl e) =
      (baseTypeDenoter = None
       \<or> (\<exists>T. baseTypeDenoter = Some T \<and> (\<exists>e. ToString T = Inl e)))"
    by (cases baseTypeDenoter) (auto simp del: ToString_loop.simps split: sum.splits)
  have b: "(\<exists>e. ToString t = Inl e) = (\<not> valid t)"
    by (rule ToString_throws_iff)
  have c: "valid t \<longrightarrow> (\<exists>s. ToString t = Inr s)"
    using b by (cases "ToString t") auto
  from a b c show ?thesis by blast
qed

theorem ToString_throws_witness:
  "valid (ArrayTypeDenoter (Some (AliasTypeDenoter ''Color'')) [Some 3, Some 2])
   \<and> ToString (ArrayTypeDenoter (Some (AliasTypeDenoter ''Color'')) [Some 3, Some 2]) = Inr ''Color[][]''
   \<and> \<not> valid (ArrayTypeDenoter (Some (ArrayTypeDenoter None [])) [])
   \<and> (\<exists>e. ToString (ArrayTypeDenoter (Some (ArrayTypeDenoter None [])) []) = Inl e)"
  using ToString_throws [of "Some (AliasTypeDenoter ''Color'')" "[Some 3, Some 2]"
      "ArrayTypeDenoter (Some (AliasTypeDenoter ''Color'')) [Some 3, Some 2]"]
    ToString_throws [of None "[]" "ArrayTypeDenoter (Some (ArrayTypeDenoter None [])) []"]
  by simp

subsection \<open>Printing base denoters\<close>

text \<open>
  Claim C9: a base denoter whose data type is neither a scalar, a vector nor a matrix type
  (\<^verbatim>\<open>DataType::String\<close>) prints as "<undefined>", not as "scalar", "vector" or "matrix".
\<close>

theorem BaseTypeDenoter_ToString_undefined:
  "\<not> IsScalarType dataType \<Longrightarrow> \<not> IsVectorType dataType \<Longrightarrow> \<not> IsMatrixType dataType \<Longrightarrow>
   ToString (BaseTypeDenoter dataType) = Inr ''<undefined>''
   \<and> ToString (BaseTypeDenoter dataType) \<notin> {Inr ''scalar'', Inr ''vector'', Inr ''matrix''}"
  by simp

theorem BaseTypeDenoter_ToString_undefined_witness:
  "\<not> IsScalarType String \<and> \<not> IsVectorType String \<and> \<not> IsMatrixType String
   \<and> ToString (BaseTypeDenoter String) = Inr ''<undefined>''"
  using BaseTypeDenoter_ToString_undefined [of String] by simp

subsection \<open>Equality of denoters\<close>

text \<open>
  Claim C4: \<^verbatim>\<open>Equals\<close> is reflexive, symmetric and transitive on all denoters, and
  denoters with different \<^verbatim>\<open>Type()\<close> tags are never equal.
\<close>

theorem Equals_equivalence:
  "Equals a a
   \<and> (Equals a b \<longrightarrow> Equals b a)
   \<and> (Equals a b \<and> Equals b c \<longrightarrow> Equals a c)
   \<and> (Type a \<noteq> Type b \<longrightarrow> \<not> Equals a b)"
  using Equals_refl [of a] Equals_sym [of a b] Equals_trans [of a b c] Equals_Type [of a b]
  by blast

theorem Equals_equivalence_witness:
  "Equals (BaseTypeDenoter Float3) (BaseTypeDenoter Float3)
   \<and> Equals (AliasTypeDenoter ''Color'') (AliasTypeDenoter ''Colour'')
   \<and> Equals (AliasTypeDenoter ''Colour'') (AliasTypeDenoter ''Tint'')
   \<and> Equals (AliasTypeDenoter ''Colour'') (AliasTypeDenoter ''Color'')
   \<and> Equals (AliasTypeDenoter ''Color'') (AliasTypeDenoter ''Tint'')
   \<and> Type VoidTypeDenoter \<noteq> Type (StructTypeDenoter ''S'' None)
   \<and> \<not> Equals VoidTypeDenoter (StructTypeDenoter ''S'' None)"
proof -
  have ab: "Equals (AliasTypeDenoter ''Color'') (AliasTypeDenoter ''Colour'')" by simp
  have bc: "Equals (AliasTypeDenoter ''Colour'') (AliasTypeDenoter ''Tint'')" by simp
  have ne: "Type VoidTypeDenoter \<noteq> Type (StructTypeDenoter ''S'' None)" by simp
  from Equals_equivalence [of "AliasTypeDenoter ''Color''" "AliasTypeDenoter ''Colour''" "AliasTypeDenoter ''Tint''"] ab bc
  have "Equals (AliasTypeDenoter ''Colour'') (AliasTypeDenoter ''Color'')"
    and "Equals (AliasTypeDenoter ''Color'') (AliasTypeDenoter ''Tint'')" by blast+
  moreover from Equals_equivalence [of VoidTypeDenoter "StructTypeDenoter ''S'' None"] ne
  have "\<not> Equals VoidTypeDenoter (StructTypeDenoter ''S'' None)" by blast
  moreover from Equals_equivalence [of "BaseTypeDenoter Float3"]
  have "Equals (BaseTypeDenoter Float3) (BaseTypeDenoter Float3)" by blast
  ultimately show ?thesis using ab bc ne by blast
qed

text \<open>
  Claim C2 says that two struct denoters are equal if and only if their identifiers are
  identical, that equal alias denoters have identical identifiers, and that equal array
  denoters have equal inner denoters and equal dimension lists. No struct, alias or array
  denoter overrides \<^verbatim>\<open>TypeDenoter::Equals\<close>, which compares the tags only: denoters of one
  of these variants with different payloads are equal.
\<close>

theorem Equals_ignores_payload_example:
  "Equals (StructTypeDenoter ''A'' None) (StructTypeDenoter ''B'' None)
   \<and> ''A'' \<noteq> ''B''
   \<and> Equals (AliasTypeDenoter ''A'') (AliasTypeDenoter ''B'')
   \<and> Equals (ArrayTypeDenoter (Some VoidTypeDenoter) []) (ArrayTypeDenoter (Some (BaseTypeDenoter Float)) [Some 3])
   \<and> Some VoidTypeDenoter \<noteq> Some (BaseTypeDenoter Float)
   \<and> [] \<noteq> [Some (3::int)]"
  by simp

text \<open>
  Claim C2, amended: for a struct, alias or array denoter, \<^verbatim>\<open>Equals(rhs)\<close> returns true
  if and only if \<^verbatim>\<open>rhs\<close> is of the same variant; so every two struct denoters are equal,
  every two alias denoters and every two array denoters, whatever their identifiers,
  inner denoters and dimension lists.
\<close>

theorem Equals_Struct_Alias_Array:
  "Equals (StructTypeDenoter ident structDeclRef) rhs = (Type rhs = Struct)
   \<and> Equals (AliasTypeDenoter ident) rhs = (Type rhs = Alias)
   \<and> Equals (ArrayTypeDenoter baseTypeDenoter arrayDims) rhs = (Type rhs = Array)
   \<and> Equals (StructTypeDenoter ident structDeclRef) (StructTypeDenoter ident' structDeclRef')
   \<and> Equals (AliasTypeDenoter ident) (AliasTypeDenoter ident')
   \<and> Equals (ArrayTypeDenoter baseTypeDenoter arrayDims) (ArrayTypeDenoter baseTypeDenoter' arrayDims')"
  by auto

subsection \<open>Folding of the data type aliases\<close>

text \<open>
  Claim C5: for every scalar base \<open>B\<close> of bool, int, uint, half, float, double,
  \<^verbatim>\<open>HLSLKeywordToDataType\<close> maps the spellings \<open>B\<close>, \<open>B1\<close> and \<open>B1x1\<close> to one scalar data
  type; for every \<open>i\<close> in 2..4 it maps \<open>dwordi\<close> to the data type of \<open>uinti\<close>, and for all
  \<open>M\<close>, \<open>N\<close> in 2..4 it maps \<open>dwordMxN\<close> to the data type of \<open>uintMxN\<close>.
\<close>

theorem DataType_alias_folding:
  "(\<forall>(B, d) \<in> set [(''bool'', Bool), (''int'', Int'), (''uint'', UInt),
                    (''half'', Half), (''float'', Float), (''double'', Double)].
      IsScalarType d
      \<and> HLSLKeywordToDataType B = Inr d
      \<and> HLSLKeywordToDataType (B @ ''1'') = Inr d
      \<and> HLSLKeywordToDataType (B @ ''1x1'') = Inr d)
   \<and> (\<forall>(i, n) \<in> set [(''2'', D2), (''3'', D3), (''4'', D4)].
      HLSLKeywordToDataType (''uint'' @ i) = Inr (Vector BaseUInt n)
      \<and> HLSLKeywordToDataType (''dword'' @ i) = HLSLKeywordToDataType (''uint'' @ i))
   \<and> (\<forall>(M, m) \<in> set [(''2'', D2), (''3'', D3), (''4'', D4)].
       \<forall>(N, n) \<in> set [(''2'', D2), (''3'', D3), (''4'', D4)].
      HLSLKeywordToDataType (''uint'' @ M @ ''x'' @ N) = Inr (Matrix BaseUInt m n)
      \<and> HLSLKeywordToDataType (''dword'' @ M @ ''x'' @ N) =
          HLSLKeywordToDataType (''uint'' @ M @ ''x'' @ N))"
  by (simp add: HLSLKeywordToDataType_def MapKeywordToType_def GenerateDataTypeMap_def)

theorem DataType_alias_folding_witness:
  "(''uint'', UInt) \<in> set [(''bool'', Bool), (''int'', Int'), (''uint'', UInt),
                    (''half'', Half), (''float'', Float), (''double'', Double)]
   \<and> HLSLKeywordToDataType ''uint'' = Inr UInt
   \<and> HLSLKeywordToDataType ''uint1'' = Inr UInt
   \<and> HLSLKeywordToDataType ''uint1x1'' = Inr UInt
   \<and> (''3'', D3) \<in> set [(''2'', D2), (''3'', D3), (''4'', D4)]
   \<and> HLSLKeywordToDataType ''dword3'' = Inr UInt3
   \<and> (''4'', D4) \<in> set [(''2'', D2), (''3'', D3), (''4'', D4)]
   \<and> HLSLKeywordToDataType ''dword3x4'' = Inr UInt3x4"
  using DataType_alias_folding by simp

subsection \<open>The if-block stack\<close>


end
